theory Spec2Isabelle
  imports Complex_Main "HOL-Library.Sublist"
begin

section \<open>Values, errors and clocks\<close>

text \<open>
  The bot is a Python program. Its configuration is a JSON document held as a dict, so a
  configuration value is an integer, a float or a string. A float of the configuration
  is a finite double, held as the real number it denotes; the arithmetic on floats rounds
  as the doubles of the platform do (see the section on floating point). Exceptions are
  values of the type \<open>error\<close>, and a computation that may raise returns \<open>error + 'a\<close>.
\<close>

datatype pyval = IntV int | FloatV real | StrV string

datatype error =
    ValueError string
  | KeyError string
  | TypeError
  | ZeroDivisionError
  | OverflowError

type_synonym config = "string \<rightharpoonup> pyval"

text \<open>The numeric reading of a value; arithmetic and ordering on a string raise TypeError.\<close>

fun num :: "pyval \<Rightarrow> error + real" where
  "num (IntV i) = Inr (of_int i)"
| "num (FloatV x) = Inr x"
| "num (StrV s) = Inl TypeError"

text \<open>\<open>d[k]\<close> raises KeyError on a missing key; \<open>d.get(k, default)\<close> does not.\<close>

definition getitem :: "config \<Rightarrow> string \<Rightarrow> error + pyval" where
  "getitem d k = (case d k of None \<Rightarrow> Inl (KeyError k) | Some v \<Rightarrow> Inr v)"

definition get_default :: "config \<Rightarrow> string \<Rightarrow> pyval \<Rightarrow> pyval" where
  "get_default d k dflt = (case d k of None \<Rightarrow> dflt | Some v \<Rightarrow> v)"

text \<open>\<open>int(x)\<close> of a float truncates towards zero; \<open>str(n)\<close> of an int is its decimal numeral.\<close>

definition py_int :: "real \<Rightarrow> int" where
  "py_int x = (if 0 \<le> x then \<lfloor>x\<rfloor> else \<lceil>x\<rceil>)"

definition digit_char :: "nat \<Rightarrow> char" where
  "digit_char d = ''0123456789'' ! d"

fun str_nat :: "nat \<Rightarrow> string" where
  "str_nat n = (if n < 10 then [digit_char n] else str_nat (n div 10) @ [digit_char (n mod 10)])"

declare str_nat.simps [simp del]

definition str_int :: "int \<Rightarrow> string" where
  "str_int i = (if i < 0 then CHR ''-'' # str_nat (nat (- i)) else str_nat (nat i))"

section \<open>Floating point\<close>

text \<open>
  A Python float is an IEEE 754 double: a finite value, an infinity or a NaN (the sign of
  zero is not kept; nothing here reads it). \<open>fl_round x\<close> is the double nearest to the
  real \<open>x\<close>, ties to even: the binade \<open>e\<close> of \<open>x\<close> (at least \<open>-1022\<close>, below that the doubles
  are subnormal) gives the spacing \<open>2 ^ (e - 52)\<close>, \<open>x\<close> is rounded to a multiple of it, and a
  result of \<open>2 ^ 1024\<close> or more is an infinity. \<open>binade\<close> finds the exponent by halving or
  doubling; 2200 steps cover every quotient and product of two finite doubles.
\<close>

datatype fval = Fin real | PInf | NInf | NaN

definition pow2 :: "int \<Rightarrow> real" where
  "pow2 e = (if 0 \<le> e then 2 ^ nat e else 1 / 2 ^ nat (- e))"

definition round_even :: "real \<Rightarrow> int" where
  "round_even x =
     (let f = \<lfloor>x\<rfloor>; d = x - of_int f
      in if d < 1 / 2 then f else if 1 / 2 < d then f + 1 else if even f then f else f + 1)"

fun binade :: "nat \<Rightarrow> real \<Rightarrow> int" where
  "binade 0 x = 0"
| "binade (Suc n) x =
     (if 2 \<le> x then binade n (x / 2) + 1 else if x < 1 then binade n (2 * x) - 1 else 0)"

definition round_pos :: "real \<Rightarrow> fval" where
  "round_pos a =
     (let e = max (binade 2200 a) (- 1022);
          q = pow2 (e - 52);
          r = of_int (round_even (a / q)) * q
      in if pow2 1024 \<le> r then PInf else Fin r)"

fun fneg :: "fval \<Rightarrow> fval" where
  "fneg (Fin x) = Fin (- x)"
| "fneg PInf = NInf"
| "fneg NInf = PInf"
| "fneg NaN = NaN"

definition fl_round :: "real \<Rightarrow> fval" where
  "fl_round x = (if x = 0 then Fin 0 else if 0 < x then round_pos x else fneg (round_pos (- x)))"

text \<open>
  The operations of doubles: the exact result of finite operands, rounded, and the
  rules of the standard for infinities and NaN. \<open>fdiv\<close> is used with a divisor that is
  not zero (Python raises ZeroDivisionError before dividing). \<open>fless\<close> is \<open><\<close>: false
  whenever a NaN is compared.
\<close>

fun fmul :: "fval \<Rightarrow> fval \<Rightarrow> fval" where
  "fmul (Fin a) (Fin b) = fl_round (a * b)"
| "fmul (Fin a) PInf = (if a = 0 then NaN else if 0 < a then PInf else NInf)"
| "fmul (Fin a) NInf = (if a = 0 then NaN else if 0 < a then NInf else PInf)"
| "fmul PInf (Fin b) = (if b = 0 then NaN else if 0 < b then PInf else NInf)"
| "fmul NInf (Fin b) = (if b = 0 then NaN else if 0 < b then NInf else PInf)"
| "fmul PInf PInf = PInf"
| "fmul PInf NInf = NInf"
| "fmul NInf PInf = NInf"
| "fmul NInf NInf = PInf"
| "fmul NaN y = NaN"
| "fmul x NaN = NaN"

fun fadd :: "fval \<Rightarrow> fval \<Rightarrow> fval" where
  "fadd (Fin a) (Fin b) = fl_round (a + b)"
| "fadd (Fin a) PInf = PInf"
| "fadd (Fin a) NInf = NInf"
| "fadd PInf (Fin b) = PInf"
| "fadd NInf (Fin b) = NInf"
| "fadd PInf PInf = PInf"
| "fadd NInf NInf = NInf"
| "fadd PInf NInf = NaN"
| "fadd NInf PInf = NaN"
| "fadd NaN y = NaN"
| "fadd x NaN = NaN"

fun fdiv :: "fval \<Rightarrow> fval \<Rightarrow> fval" where
  "fdiv (Fin a) (Fin b) = fl_round (a / b)"
| "fdiv (Fin a) PInf = Fin 0"
| "fdiv (Fin a) NInf = Fin 0"
| "fdiv PInf (Fin b) = (if 0 < b then PInf else NInf)"
| "fdiv NInf (Fin b) = (if 0 < b then NInf else PInf)"
| "fdiv PInf PInf = NaN"
| "fdiv PInf NInf = NaN"
| "fdiv NInf PInf = NaN"
| "fdiv NInf NInf = NaN"
| "fdiv NaN y = NaN"
| "fdiv x NaN = NaN"

fun fless :: "fval \<Rightarrow> fval \<Rightarrow> bool" where
  "fless (Fin a) (Fin b) = (a < b)"
| "fless (Fin a) PInf = True"
| "fless NInf (Fin b) = True"
| "fless NInf PInf = True"
| "fless x y = False"

text \<open>
  A number during a computation is an int, exact and unbounded, or a float. An operation
  on two ints is exact, except \<open>/\<close>, which gives the correctly rounded quotient; an
  operation with a float converts an int operand to a float first, which raises
  OverflowError when the int is beyond the doubles. Comparisons between an int and a
  float are exact.
\<close>

datatype pynum = NInt int | NFloat fval

fun to_pynum :: "pyval \<Rightarrow> error + pynum" where
  "to_pynum (IntV i) = Inr (NInt i)"
| "to_pynum (FloatV x) = Inr (NFloat (Fin x))"
| "to_pynum (StrV s) = Inl TypeError"

fun nval :: "pynum \<Rightarrow> fval" where
  "nval (NInt i) = Fin (of_int i)"
| "nval (NFloat f) = f"

definition py_less :: "pynum \<Rightarrow> pynum \<Rightarrow> bool" where
  "py_less a b = fless (nval a) (nval b)"

text \<open>\<open>min(a, b)\<close> of two arguments keeps the first unless the second is smaller.\<close>

definition py_min :: "pynum \<Rightarrow> pynum \<Rightarrow> pynum" where
  "py_min a b = (if py_less b a then b else a)"

fun to_float :: "pynum \<Rightarrow> error + fval" where
  "to_float (NInt i) = (case fl_round (of_int i) of Fin y \<Rightarrow> Inr (Fin y) | _ \<Rightarrow> Inl OverflowError)"
| "to_float (NFloat f) = Inr f"

fun py_truediv :: "pynum \<Rightarrow> pynum \<Rightarrow> error + fval" where
  "py_truediv (NInt a) (NInt b) =
     (if b = 0 then Inl ZeroDivisionError
      else case fl_round (of_int a / of_int b) of
             Fin y \<Rightarrow> Inr (Fin y) | _ \<Rightarrow> Inl OverflowError)"
| "py_truediv a b =
     (case to_float a of
        Inl e \<Rightarrow> Inl e
      | Inr x \<Rightarrow>
          (case to_float b of
             Inl e \<Rightarrow> Inl e
           | Inr y \<Rightarrow> if y = Fin 0 then Inl ZeroDivisionError else Inr (fdiv x y)))"

fun py_mul :: "pynum \<Rightarrow> pynum \<Rightarrow> error + pynum" where
  "py_mul (NInt a) (NInt b) = Inr (NInt (a * b))"
| "py_mul a b =
     (case to_float a of
        Inl e \<Rightarrow> Inl e
      | Inr x \<Rightarrow> (case to_float b of Inl e \<Rightarrow> Inl e | Inr y \<Rightarrow> Inr (NFloat (fmul x y))))"

fun py_add :: "pynum \<Rightarrow> pynum \<Rightarrow> error + pynum" where
  "py_add (NInt a) (NInt b) = Inr (NInt (a + b))"
| "py_add a b =
     (case to_float a of
        Inl e \<Rightarrow> Inl e
      | Inr x \<Rightarrow> (case to_float b of Inl e \<Rightarrow> Inl e | Inr y \<Rightarrow> Inr (NFloat (fadd x y))))"

section \<open>Message entities (\<open>MessageObject\<close>)\<close>

text \<open>
  \<open>timestamp\<close> is \<open>datetime.now()\<close> in microseconds; \<open>msg_id\<close> is the field \<open>id\<close> of the
  source. The constructor reads two clocks: \<open>time.time()\<close> (seconds, a float) for the id
  and \<open>datetime.now()\<close> for the timestamp. The product \<open>time.time() * 1000\<close> is a product
  of doubles, rounded, and \<open>int\<close> truncates it. A reading beyond \<open>10 ^ 305\<close> seconds, which
  no clock returns, would make the product infinite and \<open>int\<close> raise; \<open>milliseconds\<close>
  keeps the exact product there.
\<close>

definition milliseconds :: "real \<Rightarrow> real" where
  "milliseconds time_time =
     (case fmul (Fin time_time) (Fin 1000) of Fin y \<Rightarrow> y | _ \<Rightarrow> time_time * 1000)"

record message_object =
  msg_id :: string
  message_type :: string
  reply_to_id :: "string option"
  original_message :: "string option"
  username :: "string option"
  timestamp :: int
  generated_messages :: "string list"
  selected_message :: "string option"
  sent :: bool
  deleted :: bool
  generating :: bool

definition MessageObject ::
  "string \<Rightarrow> string option \<Rightarrow> string option \<Rightarrow> string option \<Rightarrow> real \<Rightarrow> int \<Rightarrow> message_object" where
  "MessageObject mtype reply_to original uname time_time now =
     \<lparr> msg_id = str_int (py_int (milliseconds time_time)),
       message_type = mtype,
       reply_to_id = reply_to,
       original_message = original,
       username = uname,
       timestamp = now,
       generated_messages = [],
       selected_message = None,
       sent = False,
       deleted = False,
       generating = False \<rparr>"

definition add_generated_message :: "message_object \<Rightarrow> string \<Rightarrow> message_object" where
  "add_generated_message m text = m\<lparr>generated_messages := generated_messages m @ [text]\<rparr>"

definition start_generation :: "message_object \<Rightarrow> message_object" where
  "start_generation m = m\<lparr>generating := True\<rparr>"

definition stop_generation :: "message_object \<Rightarrow> message_object" where
  "stop_generation m = m\<lparr>generating := False\<rparr>"

text \<open>\<open>select_message\<close> returns the success flag together with the updated entity.\<close>

definition select_message :: "message_object \<Rightarrow> int \<Rightarrow> bool \<times> message_object" where
  "select_message m message_index =
     (if 0 \<le> message_index \<and> message_index < int (length (generated_messages m))
      then (True, m\<lparr>selected_message := Some (generated_messages m ! nat message_index)\<rparr>)
      else (False, m))"

section \<open>The message catalog (\<open>MessageManager\<close>)\<close>

text \<open>
  \<open>config_file\<close> is the content of the JSON file that \<open>save_config\<close> writes; \<open>messages\<close> is
  the list of entities in insertion order. Times are in microseconds.
\<close>

record message_manager =
  config :: config
  config_file :: config
  messages :: "message_object list"
  last_random_message_time :: int
  messages_per_day :: int

text \<open>
  \<open>get_message_by_id\<close> returns the first entity of the list with the given id. The source
  returns a reference, and the callers mutate the entity through it; \<open>update_by_id\<close> is
  that mutation: it changes the first entity with the id, in place, and nothing when
  there is none (\<open>if msg:\<close>).
\<close>

fun get_message_by_id :: "message_object list \<Rightarrow> string \<Rightarrow> message_object option" where
  "get_message_by_id [] message_id = None"
| "get_message_by_id (m # ms) message_id =
     (if msg_id m = message_id then Some m else get_message_by_id ms message_id)"

fun update_by_id ::
  "(message_object \<Rightarrow> message_object) \<Rightarrow> message_object list \<Rightarrow> string \<Rightarrow> message_object list" where
  "update_by_id f [] message_id = []"
| "update_by_id f (m # ms) message_id =
     (if msg_id m = message_id then f m # ms else m # update_by_id f ms message_id)"

definition mark_message_sent :: "message_manager \<Rightarrow> string \<Rightarrow> message_manager" where
  "mark_message_sent mm message_id =
     mm\<lparr>messages := update_by_id (\<lambda>m. m\<lparr>sent := True\<rparr>) (messages mm) message_id\<rparr>"

definition delete_message :: "message_manager \<Rightarrow> string \<Rightarrow> message_manager" where
  "delete_message mm message_id =
     mm\<lparr>messages := update_by_id (\<lambda>m. m\<lparr>deleted := True\<rparr>) (messages mm) message_id\<rparr>"

definition get_pending_messages :: "message_manager \<Rightarrow> message_object list" where
  "get_pending_messages mm = filter (\<lambda>m. \<not> sent m \<and> \<not> deleted m) (messages mm)"

definition get_generating_messages_count :: "message_manager \<Rightarrow> nat" where
  "get_generating_messages_count mm = length (filter generating (messages mm))"

section \<open>Configuration updates\<close>

text \<open>
  \<open>update_config\<close> returns the exception it raised, if any, and the manager after the
  call. \<open>dict.update\<close> is map override, and \<open>save_config\<close> writes the whole dict to the
  file (a failing write is not modelled). Comparing a string with \<open>0\<close> raises TypeError.
\<close>

definition update_config :: "message_manager \<Rightarrow> config \<Rightarrow> error option \<times> message_manager" where
  "update_config mm new_config =
     (let committed = (None, mm\<lparr>config := config mm ++ new_config,
                                config_file := config mm ++ new_config\<rparr>)
      in case new_config ''polling_interval_seconds'' of
           None \<Rightarrow> committed
         | Some v \<Rightarrow>
             (case num v of
                Inl e \<Rightarrow> (Some e, mm)
              | Inr polling_interval \<Rightarrow>
                  if polling_interval \<le> 0
                  then (Some (ValueError ''Polling interval must be greater than 0 seconds''), mm)
                  else if polling_interval > 3600
                  then (Some (ValueError
                    ''Polling interval cannot be more than 3600 seconds (1 hour)''), mm)
                  else committed))"

section \<open>Trigger evaluation\<close>

definition reset_daily_counter :: "message_manager \<Rightarrow> int \<Rightarrow> message_manager" where
  "reset_daily_counter mm now = mm\<lparr>messages_per_day := 0, last_random_message_time := now\<rparr>"

text \<open>
  The per-cycle probability of \<open>should_send_random_message\<close> (the local variable
  \<open>probability_per_cycle\<close>; \<open>get_bot_status\<close> computes the same expression): the two
  divisions of the source, in Python's arithmetic. A string operand raises TypeError and
  a zero divisor ZeroDivisionError, each at its division.
\<close>

definition probability_per_cycle :: "config \<Rightarrow> error + fval" where
  "probability_per_cycle cfg =
     (case to_pynum (get_default cfg ''polling_interval_seconds'' (IntV 120)) of
        Inl e \<Rightarrow> Inl e
      | Inr polling_interval \<Rightarrow>
          (case py_truediv (NInt (24 * 60 * 60)) polling_interval of
             Inl e \<Rightarrow> Inl e
           | Inr cycles_per_day \<Rightarrow>
               (case getitem cfg ''random_messages_per_day'' of
                  Inl e \<Rightarrow> Inl e
                | Inr tv \<Rightarrow>
                    (case to_pynum tv of
                       Inl e \<Rightarrow> Inl e
                     | Inr target_messages \<Rightarrow>
                         py_truediv target_messages (NFloat cycles_per_day)))))"

text \<open>
  \<open>now\<close> is the clock read at entry, \<open>now_reset\<close> the one read by \<open>reset_daily_counter\<close>,
  both in microseconds; \<open>timedelta.days\<close> is the floor of the difference over one day.
  \<open>sample\<close> is the value of \<open>random.random()\<close>, a double in \<open>[0, 1)\<close>.
\<close>

definition should_send_random_message ::
  "message_manager \<Rightarrow> int \<Rightarrow> int \<Rightarrow> real \<Rightarrow> (error + bool) \<times> message_manager" where
  "should_send_random_message mm now now_reset sample =
     (let mm1 = (if (now - last_random_message_time mm) div 86400000000 \<ge> 1
                 then reset_daily_counter mm now_reset else mm)
      in case probability_per_cycle (config mm1) of
           Inl e \<Rightarrow> (Inl e, mm1)
         | Inr p \<Rightarrow> (Inr (fless (Fin sample) p), mm1))"

text \<open>
  The probability that \<open>generate_reply_message\<close> compares its sample with, in Python's
  arithmetic. \<open>sub in text\<close> is \<open>sublist sub text\<close>. A string-valued rate is repeated by
  \<open>*\<close> and then makes \<open>min\<close> raise TypeError; a string-valued minimum makes \<open><\<close> raise
  it.
\<close>

definition reply_probability :: "config \<Rightarrow> string \<Rightarrow> int \<Rightarrow> error + pynum" where
  "reply_probability cfg text likes =
     (case getitem cfg ''reply_chance_per_like'' of
        Inl e \<Rightarrow> Inl e
      | Inr rv \<Rightarrow>
          (case to_pynum rv of
             Inl e \<Rightarrow> Inl e
           | Inr r \<Rightarrow>
               (case py_mul r (NInt likes) of
                  Inl e \<Rightarrow> Inl e
                | Inr x \<Rightarrow>
                    (case (if sublist ''Keller'' text \<or> sublist ''keller'' text
                           then py_add (py_min x (NFloat (Fin 1))) (NInt 1)
                           else Inr (py_min x (NFloat (Fin 1)))) of
                       Inl e \<Rightarrow> Inl e
                     | Inr p1 \<Rightarrow>
                         (case getitem cfg ''minimum_reply_chance'' of
                            Inl e \<Rightarrow> Inl e
                          | Inr mv \<Rightarrow>
                              (case to_pynum mv of
                                 Inl e \<Rightarrow> Inl e
                               | Inr m \<Rightarrow> Inr (if py_less p1 m then m else p1)))))))"

section \<open>Generation batches\<close>

text \<open>
  One generation attempt either returns a text or raises; \<open>Raised s\<close> carries \<open>str(e)\<close>.
  \<open>MessageGenerator.generate_message\<close> returns a \<open>str\<close> on every path that returns.
\<close>

datatype outcome = Returned string | Raised string

text \<open>
  \<open>asyncio.gather(*tasks, return_exceptions=True)\<close>: the attempts run concurrently and
  finish in some order, given as the list \<open>completion\<close> of launch indices. Each finished
  attempt stores its outcome in the slot of its own launch index; the call returns the
  slots, in launch order, once every slot is filled, and does not return (\<open>None\<close>) while
  one attempt is still pending.
\<close>

fun collect :: "outcome list \<Rightarrow> outcome option list \<Rightarrow> nat list \<Rightarrow> outcome option list" where
  "collect tasks slots [] = slots"
| "collect tasks slots (i # rest) =
     collect tasks (if i < length slots then slots[i := Some (tasks ! i)] else slots) rest"

definition gather :: "outcome list \<Rightarrow> nat list \<Rightarrow> outcome list option" where
  "gather tasks completion = those (collect tasks (replicate (length tasks) None) completion)"

text \<open>The text stored for one result of the batch (the two branches of the loop body).\<close>

fun candidate_text :: "string \<Rightarrow> outcome \<Rightarrow> string" where
  "candidate_text mtype (Raised e) = ''Error generating '' @ mtype @ '': '' @ e"
| "candidate_text mtype (Returned text) = text"

text \<open>
  \<open>_execute_generation_tasks\<close>. With results that are strings or exceptions nothing in the
  \<open>try\<close> block raises, so the handler of the source (its lines 168 to 171) is never entered.
\<close>

definition execute_generation_tasks ::
  "message_object \<Rightarrow> outcome list \<Rightarrow> nat list \<Rightarrow> string \<Rightarrow> message_object option" where
  "execute_generation_tasks message_obj tasks completion mtype =
     (case gather tasks completion of
        None \<Rightarrow> None
      | Some results \<Rightarrow>
          Some (foldl (\<lambda>obj r. add_generated_message obj (candidate_text mtype r)) message_obj results))"

text \<open>
  What one batch reads from its surroundings: the two clocks of the constructor, the
  outcome of each attempt by launch index, the order in which the attempts finish, and
  the clock at the end.
\<close>

record batch_env =
  time_time :: real
  now_created :: int
  attempt_outcome :: "nat \<Rightarrow> outcome"
  completion_order :: "nat list"
  now_finished :: int

text \<open>
  The generators return \<open>None\<close> when the call never returns, and otherwise the raised
  exception or the result, always with the manager as the call leaves it. The entity is
  registered at the end of the catalog before the attempts start and is mutated through
  its reference, here its position; the batch is modelled without other catalog
  operations interleaved. \<open>range\<close> of a non-integer raises TypeError.
\<close>

definition generate_random_message ::
  "message_manager \<Rightarrow> batch_env \<Rightarrow> (error + message_object) option \<times> message_manager" where
  "generate_random_message mm env =
     (let message_obj = start_generation
            (MessageObject ''random'' None None None (time_time env) (now_created env));
          pos = length (messages mm);
          mm1 = mm\<lparr>messages := messages mm @ [message_obj]\<rparr>
      in case getitem (config mm1) ''message_generation_tries'' of
           Inl e \<Rightarrow> (Some (Inl e), mm1)
         | Inr (IntV tries) \<Rightarrow>
             (case execute_generation_tasks message_obj
                     (map (attempt_outcome env) [0..<nat tries]) (completion_order env) ''random'' of
                None \<Rightarrow> (None, mm1)
              | Some obj \<Rightarrow>
                  (Some (Inr (stop_generation obj)),
                   mm1\<lparr>messages := (messages mm1)[pos := stop_generation obj],
                       messages_per_day := messages_per_day mm1 + 1,
                       last_random_message_time := now_finished env\<rparr>))
         | Inr _ \<Rightarrow> (Some (Inl TypeError), mm1))"


section \<open>The platform client (\<open>GroupMeInterface\<close>)\<close>

text \<open>
  A message of the platform's response, with the keys the poll step reads, and the
  record the poll step builds from it. \<open>likes\<close> is the length of \<open>favorited_by\<close>. The text
  of a message is \<open>null\<close> (here \<open>None\<close>) when the message has no text, an image for one.
\<close>

record raw_message =
  rm_id :: string
  rm_text :: "string option"
  rm_user_id :: string
  rm_name :: string
  rm_created_at :: int
  rm_favorited_by :: "string list"

record message_info =
  mi_id :: string
  mi_text :: "string option"
  mi_user_id :: string
  mi_name :: string
  mi_created_at :: int
  mi_likes :: nat
  mi_group_id :: string
  mi_reply_to_id :: string
  mi_username :: string

record groupme_interface =
  access_token :: string
  bot_group_id :: "string option"
  last_message_time :: int
  current_user_id :: string

definition set_bot_server :: "groupme_interface \<Rightarrow> string \<Rightarrow> groupme_interface" where
  "set_bot_server g group_id = g\<lparr>bot_group_id := Some group_id, last_message_time := 0\<rparr>"

definition message_info_of :: "string \<Rightarrow> raw_message \<Rightarrow> message_info" where
  "message_info_of group_id msg =
     \<lparr> mi_id = rm_id msg, mi_text = rm_text msg, mi_user_id = rm_user_id msg,
       mi_name = rm_name msg, mi_created_at = rm_created_at msg,
       mi_likes = length (rm_favorited_by msg), mi_group_id = group_id,
       mi_reply_to_id = rm_id msg, mi_username = rm_name msg \<rparr>"

text \<open>
  \<open>poll_new_messages\<close>. The HTTP request either fails (\<open>Inl reason\<close>, a
  \<open>RequestException\<close>, re-raised as ValueError) or yields the list of messages. An unset
  or empty group id and an empty token are falsy. The cursor moves to the largest
  \<open>created_at\<close> of the new foreign messages when there is one; on the first run the
  result is the empty list.
\<close>

definition poll_new_messages ::
  "groupme_interface \<Rightarrow> string + raw_message list
     \<Rightarrow> (error + message_info list) \<times> groupme_interface" where
  "poll_new_messages g resp =
     (case bot_group_id g of
        None \<Rightarrow> (Inl (ValueError ''Bot server group ID not set. Use set_bot_server() first.''), g)
      | Some group_id \<Rightarrow>
          if group_id = []
          then (Inl (ValueError ''Bot server group ID not set. Use set_bot_server() first.''), g)
          else if access_token g = []
          then (Inl (ValueError ''GroupMe access token is required''), g)
          else (case resp of
                  Inl reason \<Rightarrow>
                    (Inl (ValueError (''Error fetching messages from bot server: '' @ reason)), g)
                | Inr msgs \<Rightarrow>
                    let first_run = (last_message_time g = 0);
                        new_messages = map (message_info_of group_id)
                          (filter (\<lambda>msg. rm_created_at msg > last_message_time g
                                       \<and> rm_user_id msg \<noteq> current_user_id g) msgs);
                        g' = (case new_messages of
                                [] \<Rightarrow> g
                              | m # rest \<Rightarrow> g\<lparr>last_message_time :=
                                  foldl max (mi_created_at m) (map mi_created_at rest)\<rparr>)
                    in (Inr (if first_run then [] else new_messages), g')))"

text \<open>
  The messages of a response that the loop of \<open>poll_new_messages\<close> keeps: newer than the
  cursor and not written by the bot's own user.
\<close>

definition new_foreign :: "groupme_interface \<Rightarrow> raw_message list \<Rightarrow> raw_message list" where
  "new_foreign g msgs = filter (\<lambda>msg. rm_created_at msg > last_message_time g
                                       \<and> rm_user_id msg \<noteq> current_user_id g) msgs"

text \<open>A run of polls, one per response; the results in order and the final state.\<close>

fun poll_many ::
  "groupme_interface \<Rightarrow> (string + raw_message list) list
     \<Rightarrow> (error + message_info list) list \<times> groupme_interface" where
  "poll_many g [] = ([], g)"
| "poll_many g (r # rs) =
     (case poll_new_messages g r of
        (res, g') \<Rightarrow> (case poll_many g' rs of (ress, g'') \<Rightarrow> (res # ress, g'')))"

section \<open>The polling scheduler (\<open>BotController\<close>)\<close>

text \<open>
  What the scheduler does that can be seen from outside: the tasks it spawns with
  \<open>asyncio.create_task\<close> (it never awaits them), the errors it logs in the handler of a
  message (\<open>Incoming_error\<close>), of the cycle (\<open>Cycle_error\<close>) and of the loop
  (\<open>Loop_error\<close>), and its sleeps, in seconds.
\<close>

datatype event =
    Spawn_reply string string nat string
  | Incoming_error error
  | Spawn_random
  | Cycle_error error
  | Loop_error error
  | Slept real
  | Loop_cancelled

record bot_controller =
  groupme :: groupme_interface
  manager :: message_manager
  running :: bool

text \<open>
  What one iteration of the loop reads from its surroundings: the platform's response,
  the clocks and the random sample of \<open>should_send_random_message\<close>, and whether
  \<open>stop_polling\<close> cancels the task during the iteration's sleep.
\<close>

record cycle_env =
  response :: "string + raw_message list"
  cycle_now :: int
  cycle_now_reset :: int
  cycle_sample :: real
  stop_during_sleep :: bool

text \<open>
  \<open>_process_incoming_message\<close>: its body is inside its own \<open>try ... except Exception\<close>.
  It slices the text for the log, which raises TypeError on a \<open>null\<close> text; the handler
  logs the error and no task is spawned. Otherwise it spawns the reply generation for the
  message (id, text, likes, user name) and returns. The probability of a reply is
  evaluated inside the spawned task, not here.
\<close>

definition process_incoming_message :: "message_info \<Rightarrow> event" where
  "process_incoming_message message_data =
     (case mi_text message_data of
        None \<Rightarrow> Incoming_error TypeError
      | Some original_text \<Rightarrow>
          Spawn_reply (mi_id message_data) original_text (mi_likes message_data)
            (mi_username message_data))"

text \<open>
  \<open>_process_polling_cycle\<close>: the whole body is inside \<open>try ... except Exception\<close>, so an
  exception of the poll step or of the random trigger ends the cycle with a logged
  \<open>Cycle_error\<close> and the function returns normally. The messages are handled in order,
  each by \<open>_process_incoming_message\<close>, which never raises.
\<close>

definition process_polling_cycle :: "bot_controller \<Rightarrow> cycle_env \<Rightarrow> event list \<times> bot_controller" where
  "process_polling_cycle c env =
     (case poll_new_messages (groupme c) (response env) of
        (Inl e, g') \<Rightarrow> ([Cycle_error e], c\<lparr>groupme := g'\<rparr>)
      | (Inr new_messages, g') \<Rightarrow>
          let spawned = map process_incoming_message new_messages
          in (case should_send_random_message (manager c) (cycle_now env) (cycle_now_reset env)
                     (cycle_sample env) of
                (Inl e, mm') \<Rightarrow> (spawned @ [Cycle_error e], c\<lparr>groupme := g', manager := mm'\<rparr>)
              | (Inr should_send, mm') \<Rightarrow>
                  (spawned @ (if should_send then [Spawn_random] else []),
                   c\<lparr>groupme := g', manager := mm'\<rparr>)))"

text \<open>Python's \<open>==\<close> on configuration values: numbers compare by value, an int with a float too.\<close>

fun py_eq :: "pyval \<Rightarrow> pyval \<Rightarrow> bool" where
  "py_eq (StrV a) (StrV b) = (a = b)"
| "py_eq (StrV a) v = False"
| "py_eq v (StrV b) = False"
| "py_eq v w = (num v = num w)"

text \<open>
  The handler of the loop for an exception other than cancellation: it logs and sleeps
  60 seconds. A cancellation during that sleep ends the task.
\<close>

definition recover ::
  "event list \<Rightarrow> bot_controller \<Rightarrow> pyval option \<Rightarrow> error \<Rightarrow> cycle_env
     \<Rightarrow> event list \<times> bot_controller \<times> pyval option \<times> bool" where
  "recover evs c last_interval e env =
     (if stop_during_sleep env
      then (evs @ [Loop_error e, Loop_cancelled], c\<lparr>running := False\<rparr>, last_interval, False)
      else (evs @ [Loop_error e, Slept 60], c, last_interval, True))"

text \<open>
  One iteration of the \<open>while\<close> loop of \<open>_polling_loop\<close>: its events, the controller, the
  local \<open>last_polling_interval\<close>, and whether the loop goes on. The log line of a changed
  interval divides it by 60, and \<open>asyncio.sleep\<close> compares it with 0: both raise
  TypeError on a string, inside the loop's \<open>try\<close>.
\<close>

definition polling_iteration ::
  "bot_controller \<Rightarrow> pyval option \<Rightarrow> cycle_env
     \<Rightarrow> event list \<times> bot_controller \<times> pyval option \<times> bool" where
  "polling_iteration c last_interval env =
     (let polling_interval = get_default (config (manager c)) ''polling_interval_seconds'' (IntV 120);
          changed = (case last_interval of None \<Rightarrow> True | Some l \<Rightarrow> \<not> py_eq l polling_interval)
      in case (if changed then num polling_interval else Inr 0) of
           Inl e \<Rightarrow> recover [] c last_interval e env
         | Inr _ \<Rightarrow>
             (let last_interval' = (if changed then Some polling_interval else last_interval)
              in case process_polling_cycle c env of
                   (evs, c') \<Rightarrow>
                     (case num polling_interval of
                        Inl e \<Rightarrow> recover evs c' last_interval' e env
                      | Inr seconds \<Rightarrow>
                          if stop_during_sleep env
                          then (evs @ [Loop_cancelled], c'\<lparr>running := False\<rparr>, last_interval', False)
                          else (evs @ [Slept seconds], c', last_interval', True))))"

text \<open>
  The loop, run on the surroundings of its first iterations (a finite prefix of a run
  that has no end of its own): it stops when \<open>running\<close> is false or an iteration breaks.
\<close>

fun polling_loop ::
  "bot_controller \<Rightarrow> pyval option \<Rightarrow> cycle_env list \<Rightarrow> event list \<times> bot_controller" where
  "polling_loop c last_interval [] = ([], c)"
| "polling_loop c last_interval (env # envs) =
     (if \<not> running c then ([], c)
      else (case polling_iteration c last_interval env of
              (evs, c', last_interval', continue) \<Rightarrow>
                if continue
                then (case polling_loop c' last_interval' envs of (evs', c'') \<Rightarrow> (evs @ evs', c''))
                else (evs, c')))"

text \<open>
  \<open>_polling_loop\<close> from its first line: before the loop it logs the initial interval
  divided by 60, outside any \<open>try\<close>, so an interval that is not a number ends the task
  with TypeError before the first iteration.
\<close>

definition polling_loop_from_start ::
  "bot_controller \<Rightarrow> cycle_env list \<Rightarrow> error option \<times> event list \<times> bot_controller" where
  "polling_loop_from_start c envs =
     (case num (get_default (config (manager c)) ''polling_interval_seconds'' (IntV 120)) of
        Inl e \<Rightarrow> (Some e, [], c)
      | Inr initial_polling_interval \<Rightarrow> (None, polling_loop c None envs))"

section \<open>Example data\<close>

text \<open>
  The configuration that \<open>load_config\<close> returns when the file is missing. Its floats
  \<open>0.3\<close> and \<open>0.01\<close> are the doubles that these literals denote.
\<close>

definition default_config :: config where
  "default_config =
     [''random_messages_per_day'' \<mapsto> IntV 5,
      ''reply_chance_per_like'' \<mapsto> FloatV (5404319552844595 / 18014398509481984),
      ''minimum_reply_chance'' \<mapsto> FloatV (5764607523034235 / 576460752303423488),
      ''message_generation_tries'' \<mapsto> IntV 3,
      ''polling_interval_seconds'' \<mapsto> IntV 120,
      ''introduction_prompt'' \<mapsto>
         StrV ''Introduce yourself as a friendly bot that's here to chat and help out!'']"

definition default_manager :: message_manager where
  "default_manager =
     \<lparr> config = default_config, config_file = default_config, messages = [],
       last_random_message_time = 1700000000000000, messages_per_day = 0 \<rparr>"

definition example_entity :: message_object where
  "example_entity = MessageObject ''manual'' None None None 1700000000 1700000000000000"

definition example_manager :: message_manager where
  "example_manager =
     \<lparr> config = Map.empty, config_file = Map.empty, messages = [example_entity],
       last_random_message_time = 0, messages_per_day = 0 \<rparr>"

text \<open>
  A batch of three attempts: the first two return \<open>A\<close> and \<open>B\<close>, the third raises, and the
  third finishes first.
\<close>

definition example_env :: batch_env where
  "example_env =
     \<lparr> time_time = 1700000001, now_created = 1700000001000000,
       attempt_outcome = (\<lambda>i. if i = 0 then Returned ''A''
                             else if i = 1 then Returned ''B''
                             else Raised ''No common phrases found''),
       completion_order = [2, 0, 1],
       now_finished = 1700000009000000 \<rparr>"

text \<open>
  A platform client that has not polled yet, a controller around it, and the
  surroundings of one cycle: a response with a message of another user and one of the
  bot itself, and a failing request.
\<close>

definition example_groupme :: groupme_interface where
  "example_groupme =
     \<lparr> access_token = ''token'', bot_group_id = Some ''12345'', last_message_time = 0,
       current_user_id = ''bot'' \<rparr>"

definition example_controller :: bot_controller where
  "example_controller = \<lparr> groupme = example_groupme, manager = default_manager, running = True \<rparr>"

definition foreign_message :: raw_message where
  "foreign_message =
     \<lparr> rm_id = ''m1'', rm_text = Some ''hello Keller'', rm_user_id = ''u1'', rm_name = ''Ann'',
       rm_created_at = 1700000100, rm_favorited_by = [''u2''] \<rparr>"

definition own_message :: raw_message where
  "own_message =
     \<lparr> rm_id = ''m0'', rm_text = Some ''hi'', rm_user_id = ''bot'', rm_name = ''KellerBot'',
       rm_created_at = 1700000050, rm_favorited_by = [] \<rparr>"

definition example_cycle_env :: cycle_env where
  "example_cycle_env =
     \<lparr> response = Inr [foreign_message, own_message], cycle_now = 1700000010000000,
       cycle_now_reset = 1700000010000001, cycle_sample = 1 / 2, stop_during_sleep = False \<rparr>"


text \<open>
  A controller whose client has polled before, and a cycle whose response holds a
  message without text followed by a message with text.
\<close>

definition image_message :: raw_message where
  "image_message =
     \<lparr> rm_id = ''m2'', rm_text = None, rm_user_id = ''u2'', rm_name = ''Bob'',
       rm_created_at = 1700000090, rm_favorited_by = [] \<rparr>"

definition polled_controller :: bot_controller where
  "polled_controller =
     \<lparr> groupme = example_groupme\<lparr>last_message_time := 1700000000\<rparr>,
       manager = default_manager, running = True \<rparr>"

definition image_cycle_env :: cycle_env where
  "image_cycle_env =
     \<lparr> response = Inr [image_message, foreign_message], cycle_now = 1700000010000000,
       cycle_now_reset = 1700000010000001, cycle_sample = 1 / 2, stop_during_sleep = False \<rparr>"

section \<open>Rounding to doubles\<close>

lemma binade_numeral:
  "binade (numeral k) x =
     (if 2 \<le> x then binade (pred_numeral k) (x / 2) + 1
      else if x < 1 then binade (pred_numeral k) (2 * x) - 1 else 0)"
  by (simp add: numeral_eq_Suc)




lemma round_pos_cert:
  assumes "binade 2200 a = e" and "- 1022 \<le> e"
    and "round_even (a / pow2 (e - 52)) = n"
    and "of_int n * pow2 (e - 52) < pow2 1024"
  shows "round_pos a = Fin (of_int n * pow2 (e - 52))"
proof -
  have m: "max (binade 2200 a) (- 1022) = e" using assms(1,2) by simp
  show ?thesis unfolding round_pos_def m Let_def assms(3) using assms(4) by simp
qed


lemma fl_round_0: "fl_round 0 = Fin 0"
  by (simp add: fl_round_def)




lemma fl_round_1: "fl_round 1 = Fin 1"
proof -
  have b: "binade 2200 1 = 0" by (simp add: binade_numeral)
  have n: "round_even (1 / pow2 (0 - 52)) = 4503599627370496"
    by (simp add: pow2_def round_even_def)
  have "of_int (4503599627370496::int) * pow2 (0 - 52) < pow2 1024"
    by (simp add: pow2_def)
  from round_pos_cert [OF b _ n this] have "round_pos 1 = Fin 1" by (simp add: pow2_def)
  then show ?thesis by (simp add: fl_round_def)
qed


lemma fl_round_cert:
  assumes "0 < x" and "binade 2200 x = e" and "- 1022 \<le> e"
    and "round_even (x / pow2 (e - 52)) = n"
    and "of_int n * pow2 (e - 52) < pow2 1024"
  shows "fl_round x = Fin (of_int n * pow2 (e - 52))"
  using assms(1) round_pos_cert [OF assms(2,3,4,5)] by (simp add: fl_round_def)

lemma fl_round_720: "fl_round 720 = Fin 720"
proof -
  have b: "binade 2200 720 = 9" by (simp add: binade_numeral)
  have n: "round_even (720 / pow2 (9 - 52)) = 6333186975989760"
    by (simp add: pow2_def round_even_def)
  have "of_int (6333186975989760::int) * pow2 (9 - 52) < pow2 1024"
    by (simp add: pow2_def)
  from fl_round_cert [OF _ b _ n this] show ?thesis by (simp add: pow2_def)
qed

lemma fl_round_5: "fl_round 5 = Fin 5"
proof -
  have b: "binade 2200 5 = 2" by (simp add: binade_numeral)
  have n: "round_even (5 / pow2 (2 - 52)) = 5629499534213120"
    by (simp add: pow2_def round_even_def)
  have "of_int (5629499534213120::int) * pow2 (2 - 52) < pow2 1024"
    by (simp add: pow2_def)
  from fl_round_cert [OF _ b _ n this] show ?thesis by (simp add: pow2_def)
qed

lemma fl_round_144th: "fl_round (1 / 144) = Fin (2001599834386887 / 288230376151711744)"
proof -
  have b: "binade 2200 (1 / 144) = - 8" by (simp add: binade_numeral)
  have n: "round_even (1 / 144 / pow2 (- 8 - 52)) = 8006399337547548"
    by (simp add: pow2_def round_even_def)
  have "of_int (8006399337547548::int) * pow2 (- 8 - 52) < pow2 1024"
    by (simp add: pow2_def)
  from fl_round_cert [OF _ b _ n this] show ?thesis by (simp add: pow2_def)
qed

lemma default_probability:
  "probability_per_cycle default_config = Inr (Fin (2001599834386887 / 288230376151711744))"
  by (simp add: probability_per_cycle_def default_config_def get_default_def getitem_def
      fl_round_720 fl_round_5 fl_round_144th)

lemma milliseconds_example: "milliseconds 1700000000 = 1700000000000"
proof -
  have b: "binade 2200 1700000000000 = 40" by (simp add: binade_numeral)
  have n: "round_even (1700000000000 / pow2 (40 - 52)) = 6963200000000000"
    by (simp add: pow2_def round_even_def)
  have "of_int (6963200000000000::int) * pow2 (40 - 52) < pow2 1024"
    by (simp add: pow2_def)
  from fl_round_cert [OF _ b _ n this] have "fl_round 1700000000000 = Fin 1700000000000"
    by (simp add: pow2_def)
  then show ?thesis by (simp add: milliseconds_def)
qed

lemma milliseconds_first: "milliseconds (17000000000001 / 10000) = 3481600000000205 / 2048"
proof -
  have b: "binade 2200 (17000000000001 / 10) = 40" by (simp add: binade_numeral)
  have n: "round_even (17000000000001 / 10 / pow2 (40 - 52)) = 6963200000000410"
    by (simp add: pow2_def round_even_def)
  have "of_int (6963200000000410::int) * pow2 (40 - 52) < pow2 1024"
    by (simp add: pow2_def)
  from fl_round_cert [OF _ b _ n this]
  have "fl_round (17000000000001 / 10) = Fin (3481600000000205 / 2048)"
    by (simp add: pow2_def)
  then show ?thesis by (simp add: milliseconds_def)
qed

lemma milliseconds_second: "milliseconds (17000000000009 / 10000) = 3481600000001843 / 2048"
proof -
  have b: "binade 2200 (17000000000009 / 10) = 40" by (simp add: binade_numeral)
  have n: "round_even (17000000000009 / 10 / pow2 (40 - 52)) = 6963200000003686"
    by (simp add: pow2_def round_even_def)
  have "of_int (6963200000003686::int) * pow2 (40 - 52) < pow2 1024"
    by (simp add: pow2_def)
  from fl_round_cert [OF _ b _ n this]
  have "fl_round (17000000000009 / 10) = Fin (3481600000001843 / 2048)"
    by (simp add: pow2_def)
  then show ?thesis by (simp add: milliseconds_def)
qed

section \<open>Properties of the catalog\<close>

lemma get_update_by_id:
  assumes "\<And>m. msg_id (f m) = msg_id m"
  shows "get_message_by_id (update_by_id f ms i) i = map_option f (get_message_by_id ms i)"
  using assms by (induction ms) auto

lemma update_by_id_absent:
  "get_message_by_id ms i = None \<Longrightarrow> update_by_id f ms i = ms"
  by (induction ms) (auto split: if_splits)

lemma update_by_id_commute:
  assumes "\<And>m. msg_id (f m) = msg_id m" and "\<And>m. msg_id (g m) = msg_id m"
    and "\<And>m. f (g m) = g (f m)"
  shows "update_by_id f (update_by_id g ms i) i = update_by_id g (update_by_id f ms i) i"
  using assms by (induction ms) auto


section \<open>Sent and deleted flags\<close>

lemma example_entity_id: "msg_id example_entity = ''1700000000000''"
  by (simp add: example_entity_def MessageObject_def milliseconds_example py_int_def
      str_int_def str_nat.simps digit_char_def)

text \<open>
  C1 (as stated, refuted). The claim says that \<open>sent\<close> and \<open>deleted\<close> are never both true
  and that the second, conflicting call is rejected or changes nothing. On a catalog
  holding one fresh entity, deleting it and then marking it sent (or the other way
  round) leaves the entity with both flags true.
\<close>

theorem sent_deleted_both_true_counterexample:
  "map_option sent (get_message_by_id
      (messages (mark_message_sent (delete_message example_manager ''1700000000000'') ''1700000000000''))
      ''1700000000000'') = Some True
   \<and> map_option deleted (get_message_by_id
      (messages (mark_message_sent (delete_message example_manager ''1700000000000'') ''1700000000000''))
      ''1700000000000'') = Some True
   \<and> map_option sent (get_message_by_id
      (messages (delete_message (mark_message_sent example_manager ''1700000000000'') ''1700000000000''))
      ''1700000000000'') = Some True
   \<and> map_option deleted (get_message_by_id
      (messages (delete_message (mark_message_sent example_manager ''1700000000000'') ''1700000000000''))
      ''1700000000000'') = Some True"
  by (simp add: mark_message_sent_def delete_message_def example_manager_def example_entity_id)

text \<open>
  C1 (amended). Neither call looks at the other flag: \<open>mark_message_sent\<close> sets \<open>sent\<close> on
  the first entity with the id and \<open>delete_message\<close> sets \<open>deleted\<close> on it, each leaving
  every other field as it was. The two calls commute, and after both (in either order)
  the entity found under the id is the original one with both flags true. On an id that
  the catalog does not hold, both calls change nothing.
\<close>

theorem mark_sent_delete_independent:
  "get_message_by_id (messages (mark_message_sent mm i)) i
     = map_option (\<lambda>m. m\<lparr>sent := True\<rparr>) (get_message_by_id (messages mm) i)
   \<and> get_message_by_id (messages (delete_message mm i)) i
     = map_option (\<lambda>m. m\<lparr>deleted := True\<rparr>) (get_message_by_id (messages mm) i)
   \<and> delete_message (mark_message_sent mm i) i = mark_message_sent (delete_message mm i) i
   \<and> get_message_by_id (messages (delete_message (mark_message_sent mm i) i)) i
     = map_option (\<lambda>m. m\<lparr>sent := True, deleted := True\<rparr>) (get_message_by_id (messages mm) i)
   \<and> (get_message_by_id (messages mm) i = None \<longrightarrow>
        mark_message_sent mm i = mm \<and> delete_message mm i = mm)"
proof -
  have a: "get_message_by_id (messages (mark_message_sent mm i)) i
     = map_option (\<lambda>m. m\<lparr>sent := True\<rparr>) (get_message_by_id (messages mm) i)"
    by (simp add: mark_message_sent_def get_update_by_id)
  have b: "get_message_by_id (messages (delete_message mm i)) i
     = map_option (\<lambda>m. m\<lparr>deleted := True\<rparr>) (get_message_by_id (messages mm) i)"
    by (simp add: delete_message_def get_update_by_id)
  have c: "delete_message (mark_message_sent mm i) i = mark_message_sent (delete_message mm i) i"
    unfolding delete_message_def mark_message_sent_def
    by (simp add: update_by_id_commute [of "\<lambda>m. m\<lparr>deleted := True\<rparr>" "\<lambda>m. m\<lparr>sent := True\<rparr>"])
  have d: "get_message_by_id (messages (delete_message (mark_message_sent mm i) i)) i
     = map_option (\<lambda>m. m\<lparr>sent := True, deleted := True\<rparr>) (get_message_by_id (messages mm) i)"
    by (simp add: delete_message_def mark_message_sent_def get_update_by_id
        option.map_comp comp_def)
  have e: "get_message_by_id (messages mm) i = None \<longrightarrow>
        mark_message_sent mm i = mm \<and> delete_message mm i = mm"
    by (simp add: delete_message_def mark_message_sent_def update_by_id_absent)
  from a b c d e show ?thesis by blast
qed

theorem mark_sent_delete_independent_witness:
  "get_message_by_id (messages example_manager) ''42'' = None
   \<and> mark_message_sent example_manager ''42'' = example_manager
   \<and> delete_message example_manager ''42'' = example_manager
   \<and> get_message_by_id (messages (delete_message (mark_message_sent example_manager
        ''1700000000000'') ''1700000000000'')) ''1700000000000''
      = Some (example_entity\<lparr>sent := True, deleted := True\<rparr>)"
proof -
  have h: "get_message_by_id (messages example_manager) ''42'' = None"
    by (simp add: example_manager_def example_entity_id)
  have g: "get_message_by_id (messages example_manager) ''1700000000000'' = Some example_entity"
    by (simp add: example_manager_def example_entity_id)
  have a: "mark_message_sent example_manager ''42'' = example_manager
      \<and> delete_message example_manager ''42'' = example_manager"
    using h mark_sent_delete_independent [of example_manager "''42''"] by blast
  have "get_message_by_id (messages (delete_message (mark_message_sent example_manager
        ''1700000000000'') ''1700000000000'')) ''1700000000000''
      = map_option (\<lambda>m. m\<lparr>sent := True, deleted := True\<rparr>)
          (get_message_by_id (messages example_manager) ''1700000000000'')"
    using mark_sent_delete_independent [of example_manager "''1700000000000''"] by blast
  then have b: "get_message_by_id (messages (delete_message (mark_message_sent example_manager
        ''1700000000000'') ''1700000000000'')) ''1700000000000''
      = Some (example_entity\<lparr>sent := True, deleted := True\<rparr>)"
    by (simp only: g option.map)
  from h a b show ?thesis by blast
qed

section \<open>Entity ids\<close>

text \<open>
  C9 (the code breaks it). The constructor's comment calls the id unique, but the id is
  the clock reading in whole milliseconds: two entities created 0.8 ms apart, at
  1700000000.0001 s and 1700000000.0009 s, get the same id, and a lookup by that id
  finds only the first of them.
\<close>

theorem message_ids_collide:
  "msg_id (MessageObject ''reply'' (Some ''101'') (Some ''hi'') (Some ''Ann'') (17000000000001 / 10000) 0)
     = ''1700000000000''
   \<and> msg_id (MessageObject ''reply'' (Some ''102'') (Some ''yo'') (Some ''Bob'') (17000000000009 / 10000) 0)
     = ''1700000000000''
   \<and> get_message_by_id
       [MessageObject ''reply'' (Some ''101'') (Some ''hi'') (Some ''Ann'') (17000000000001 / 10000) 0,
        MessageObject ''reply'' (Some ''102'') (Some ''yo'') (Some ''Bob'') (17000000000009 / 10000) 0]
       ''1700000000000''
     = Some (MessageObject ''reply'' (Some ''101'') (Some ''hi'') (Some ''Ann'') (17000000000001 / 10000) 0)"
  by (simp add: MessageObject_def milliseconds_first milliseconds_second py_int_def str_int_def
      str_nat.simps digit_char_def)

section \<open>Rejected configuration updates\<close>

text \<open>
  C7. An update whose \<open>polling_interval_seconds\<close> is at most 0 or more than 3600 raises
  ValueError to the caller, and the manager after the call is the manager before it: the
  stored configuration, with its polling interval, and the saved file are unchanged.
\<close>

theorem update_config_rejects:
  assumes "new_config ''polling_interval_seconds'' = Some v" and "num v = Inr x"
    and "x \<le> 0 \<or> x > 3600"
  shows "update_config mm new_config =
           (Some (ValueError (if x \<le> 0 then ''Polling interval must be greater than 0 seconds''
              else ''Polling interval cannot be more than 3600 seconds (1 hour)'')), mm)"
  using assms by (auto simp: update_config_def)

theorem update_config_rejects_witness:
  "update_config default_manager [''polling_interval_seconds'' \<mapsto> IntV 0]
     = (Some (ValueError ''Polling interval must be greater than 0 seconds''), default_manager)
   \<and> update_config default_manager [''polling_interval_seconds'' \<mapsto> IntV 3601]
     = (Some (ValueError ''Polling interval cannot be more than 3600 seconds (1 hour)''),
        default_manager)
   \<and> config default_manager ''polling_interval_seconds'' = Some (IntV 120)"
proof -
  have a: "update_config default_manager [''polling_interval_seconds'' \<mapsto> IntV 0]
     = (Some (ValueError ''Polling interval must be greater than 0 seconds''), default_manager)"
    using update_config_rejects
      [of "[''polling_interval_seconds'' \<mapsto> IntV 0]" "IntV 0" 0 default_manager]
    by simp
  have b: "update_config default_manager [''polling_interval_seconds'' \<mapsto> IntV 3601]
     = (Some (ValueError ''Polling interval cannot be more than 3600 seconds (1 hour)''),
        default_manager)"
    using update_config_rejects
      [of "[''polling_interval_seconds'' \<mapsto> IntV 3601]" "IntV 3601" 3601 default_manager]
    by simp
  have c: "config default_manager ''polling_interval_seconds'' = Some (IntV 120)"
    by (simp add: default_manager_def default_config_def)
  from a b c show ?thesis by blast
qed

section \<open>Gathering the attempts of a batch\<close>

lemma those_Some: "those xs = Some ys \<Longrightarrow> xs = map Some ys"
  by (induction xs arbitrary: ys) (auto split: option.splits)

lemma those_map_Some: "those (map Some ys) = Some ys"
  by (induction ys) auto

lemma collect_length: "length (collect tasks slots sched) = length slots"
  by (induction sched arbitrary: slots) auto

lemma collect_slots:
  assumes "i < length slots" and "slots ! i = None \<or> slots ! i = Some (tasks ! i)"
  shows "collect tasks slots sched ! i = None \<or> collect tasks slots sched ! i = Some (tasks ! i)"
  using assms
proof (induction sched arbitrary: slots)
  case Nil
  then show ?case by simp
next
  case (Cons j rest)
  then show ?case by (cases "j = i") (auto simp: nth_list_update)
qed

lemma collect_filled_stays:
  assumes "i < length slots" and "slots ! i = Some (tasks ! i)"
  shows "collect tasks slots sched ! i = Some (tasks ! i)"
  using assms
proof (induction sched arbitrary: slots)
  case Nil
  then show ?case by simp
next
  case (Cons j rest)
  then show ?case by (cases "j = i") (auto simp: nth_list_update)
qed

lemma collect_fills:
  assumes "i < length slots" and "i \<in> set sched"
  shows "collect tasks slots sched ! i = Some (tasks ! i)"
  using assms
proof (induction sched arbitrary: slots)
  case Nil
  then show ?case by simp
next
  case (Cons j rest)
  show ?case
  proof (cases "j = i")
    case True
    with Cons.prems show ?thesis by (simp add: collect_filled_stays)
  next
    case False
    with Cons show ?thesis by auto
  qed
qed

lemma gather_launch_order:
  assumes "gather tasks sched = Some results"
  shows "results = tasks"
proof -
  let ?slots = "collect tasks (replicate (length tasks) None) sched"
  from assms have eq: "?slots = map Some results"
    by (simp add: gather_def those_Some)
  have len: "length ?slots = length tasks" by (simp add: collect_length)
  with eq have len2: "length results = length tasks" by (metis length_map)
  have "results ! i = tasks ! i" if "i < length tasks" for i
  proof -
    have "?slots ! i = None \<or> ?slots ! i = Some (tasks ! i)"
      using that by (intro collect_slots) auto
    moreover have "?slots ! i = Some (results ! i)"
      using eq that len2 by simp
    ultimately show ?thesis by simp
  qed
  with len2 show ?thesis by (simp add: list_eq_iff_nth_eq)
qed

lemma gather_complete:
  assumes "\<forall>i<length tasks. i \<in> set sched"
  shows "gather tasks sched = Some tasks"
proof -
  let ?slots = "collect tasks (replicate (length tasks) None) sched"
  have "?slots = map Some tasks"
  proof (rule nth_equalityI)
    show "length ?slots = length (map Some tasks)" by (simp add: collect_length)
  next
    fix i assume "i < length ?slots"
    then have i: "i < length tasks" by (simp add: collect_length)
    with assms have "i \<in> set sched" by blast
    with i have "?slots ! i = Some (tasks ! i)" by (intro collect_fills) auto
    with i show "?slots ! i = map Some tasks ! i" by simp
  qed
  then show ?thesis by (simp add: gather_def those_map_Some)
qed

lemma foldl_add_generated:
  "foldl (\<lambda>obj r. add_generated_message obj (f r)) m rs
     = m\<lparr>generated_messages := generated_messages m @ map f rs\<rparr>"
  by (induction rs arbitrary: m) (auto simp: add_generated_message_def)

lemma execute_generation_tasks_result:
  assumes "execute_generation_tasks m tasks sched mtype = Some m'"
  shows "m' = m\<lparr>generated_messages := generated_messages m @ map (candidate_text mtype) tasks\<rparr>"
  using assms gather_launch_order
  by (auto simp: execute_generation_tasks_def foldl_add_generated split: option.splits)

lemma execute_generation_tasks_complete:
  assumes "\<forall>i<length tasks. i \<in> set sched"
  shows "execute_generation_tasks m tasks sched mtype
    = Some (m\<lparr>generated_messages := generated_messages m @ map (candidate_text mtype) tasks\<rparr>)"
  using gather_complete [OF assms]
  by (simp add: execute_generation_tasks_def foldl_add_generated)

section \<open>Candidates of a batch\<close>

text \<open>
  C2. When the configured width is an integer of at least 1 and every attempt finishes
  (returning or raising, in any order), \<open>generate_random_message\<close> returns the entity,
  registered at the end of the catalog, with \<open>generating\<close> false and exactly \<open>width\<close>
  candidates: the text of each attempt that returned and, for each attempt that raised,
  the marker \<open>Error generating random: \<close> followed by the exception's message.
\<close>

theorem batch_candidates_length:
  assumes "config mm ''message_generation_tries'' = Some (IntV width)" and "1 \<le> width"
    and "\<forall>i<nat width. i \<in> set (completion_order env)"
  shows "\<exists>obj. generate_random_message mm env =
             (Some (Inr obj),
              mm\<lparr>messages := messages mm @ [obj],
                  messages_per_day := messages_per_day mm + 1,
                  last_random_message_time := now_finished env\<rparr>)
           \<and> generating obj = False
           \<and> int (length (generated_messages obj)) = width
           \<and> generated_messages obj
               = map (\<lambda>i. candidate_text ''random'' (attempt_outcome env i)) [0..<nat width]
           \<and> (\<forall>i<nat width. \<forall>e. attempt_outcome env i = Raised e \<longrightarrow>
                 generated_messages obj ! i = ''Error generating random: '' @ e)"
proof -
  let ?m0 = "start_generation (MessageObject ''random'' None None None (time_time env) (now_created env))"
  let ?tasks = "map (attempt_outcome env) [0..<nat width]"
  let ?obj = "stop_generation (?m0\<lparr>generated_messages := generated_messages ?m0 @ map (candidate_text ''random'') ?tasks\<rparr>)"
  have ex: "execute_generation_tasks ?m0 ?tasks (completion_order env) ''random''
      = Some (?m0\<lparr>generated_messages := generated_messages ?m0 @ map (candidate_text ''random'') ?tasks\<rparr>)"
    using assms(3) by (intro execute_generation_tasks_complete) simp
  have run: "generate_random_message mm env =
             (Some (Inr ?obj),
              mm\<lparr>messages := messages mm @ [?obj],
                  messages_per_day := messages_per_day mm + 1,
                  last_random_message_time := now_finished env\<rparr>)"
    unfolding generate_random_message_def Let_def
    by (simp add: getitem_def assms(1) ex del: upt.simps)
  have gen: "generated_messages ?obj
      = map (\<lambda>i. candidate_text ''random'' (attempt_outcome env i)) [0..<nat width]"
    by (simp add: stop_generation_def start_generation_def MessageObject_def comp_def)
  have g: "generating ?obj = False" by (simp add: stop_generation_def)
  have len: "int (length (generated_messages ?obj)) = width"
    using assms(2) by (subst gen) simp
  have err: "\<forall>i<nat width. \<forall>e. attempt_outcome env i = Raised e \<longrightarrow>
                 generated_messages ?obj ! i = ''Error generating random: '' @ e"
    by (subst gen) simp
  from run g len gen err show ?thesis by blast
qed

theorem batch_candidates_length_witness:
  "map_option (map_sum id generated_messages) (fst (generate_random_message default_manager example_env))
     = Some (Inr [''A'', ''B'', ''Error generating random: No common phrases found''])
   \<and> map_option (map_sum id generating) (fst (generate_random_message default_manager example_env))
     = Some (Inr False)"
proof -
  have c: "config default_manager ''message_generation_tries'' = Some (IntV 3)"
    by (simp add: default_manager_def default_config_def)
  have s: "\<forall>i<nat 3. i \<in> set (completion_order example_env)"
    by (auto simp: example_env_def less_Suc_eq numeral_3_eq_3)
  have u: "[0..<nat 3] = [0, 1, 2]" by (simp add: upt_rec numeral_3_eq_3)
  from batch_candidates_length [OF c _ s] obtain obj where
    r: "fst (generate_random_message default_manager example_env) = Some (Inr obj)"
    and g: "generating obj = False"
    and m: "generated_messages obj
               = map (\<lambda>i. candidate_text ''random'' (attempt_outcome example_env i)) [0..<nat 3]"
    by auto
  from m have "generated_messages obj
      = [''A'', ''B'', ''Error generating random: No common phrases found'']"
    unfolding u by (simp add: example_env_def)
  with r g show ?thesis by simp
qed

text \<open>
  C5 (as stated, refuted). With two attempts returning \<open>A\<close> and \<open>B\<close>, of which the second
  finishes first, the candidates are \<open>A, B\<close> (launch order), not \<open>B, A\<close> (completion order).
\<close>

theorem candidates_not_in_completion_order_counterexample:
  "map_option generated_messages
      (execute_generation_tasks example_entity [Returned ''A'', Returned ''B''] [1, 0] ''random'')
     = Some [''A'', ''B'']
   \<and> map_option generated_messages
      (execute_generation_tasks example_entity [Returned ''A'', Returned ''B''] [1, 0] ''random'')
     \<noteq> Some [''B'', ''A'']"
  by (simp add: execute_generation_tasks_def gather_def add_generated_message_def
      example_entity_def MessageObject_def)

text \<open>
  C5 (amended). The candidates are appended only after all attempts have finished, in
  launch order: whatever the completion order, the batch either does not return or
  appends the texts of the attempts in the order in which they were launched, and it
  does so under every schedule that finishes all attempts. No schedule changes the order.
\<close>

theorem candidates_in_launch_order:
  "(execute_generation_tasks m tasks sched mtype = None
    \<or> execute_generation_tasks m tasks sched mtype
        = Some (m\<lparr>generated_messages := generated_messages m @ map (candidate_text mtype) tasks\<rparr>))
   \<and> ((\<forall>i<length tasks. i \<in> set sched) \<longrightarrow>
        map_option generated_messages (execute_generation_tasks m tasks sched mtype)
          = Some (generated_messages m @ map (candidate_text mtype) tasks))"
proof -
  have a: "execute_generation_tasks m tasks sched mtype = None
    \<or> execute_generation_tasks m tasks sched mtype
        = Some (m\<lparr>generated_messages := generated_messages m @ map (candidate_text mtype) tasks\<rparr>)"
    using execute_generation_tasks_result [of m tasks sched mtype]
    by (cases "execute_generation_tasks m tasks sched mtype") auto
  have b: "(\<forall>i<length tasks. i \<in> set sched) \<longrightarrow>
        map_option generated_messages (execute_generation_tasks m tasks sched mtype)
          = Some (generated_messages m @ map (candidate_text mtype) tasks)"
    by (simp add: execute_generation_tasks_complete)
  from a b show ?thesis by blast
qed

theorem candidates_in_launch_order_witness:
  "map_option generated_messages
       (execute_generation_tasks example_entity [Returned ''A'', Returned ''B''] [1, 0] ''reply'')
     = Some [''A'', ''B'']"
proof -
  have h: "\<forall>i<length [Returned ''A'', Returned ''B'']. i \<in> set [1, 0::nat]"
    by (auto simp: less_Suc_eq)
  have g: "generated_messages example_entity = []"
    by (simp add: example_entity_def MessageObject_def)
  from candidates_in_launch_order
    [of example_entity "[Returned ''A'', Returned ''B'']" "[1, 0]" "''reply''"] h
  have "map_option generated_messages
       (execute_generation_tasks example_entity [Returned ''A'', Returned ''B''] [1, 0] ''reply'')
     = Some (generated_messages example_entity
             @ map (candidate_text ''reply'') [Returned ''A'', Returned ''B''])"
    by blast
  with g show ?thesis by simp
qed

section \<open>The cursor of the poll step\<close>

lemma foldl_max_init: "(x::int) \<le> foldl max x xs"
proof (induction xs arbitrary: x)
  case Nil
  then show ?case by simp
next
  case (Cons a xs)
  have "x \<le> max x a" by simp
  also have "max x a \<le> foldl max (max x a) xs" by (rule Cons.IH)
  finally show ?case by simp
qed

lemma foldl_max_ge: "y \<in> set xs \<Longrightarrow> y \<le> foldl max (x::int) xs"
proof (induction xs arbitrary: x)
  case Nil
  then show ?case by simp
next
  case (Cons a xs)
  show ?case
  proof (cases "y = a")
    case True
    have "a \<le> max x a" by simp
    also have "max x a \<le> foldl max (max x a) xs" by (rule foldl_max_init)
    finally show ?thesis using True by simp
  next
    case False
    with Cons.prems have "y \<in> set xs" by simp
    then show ?thesis using Cons.IH by simp
  qed
qed

lemma poll_valid:
  assumes "bot_group_id g = Some gid" and "gid \<noteq> []" and "access_token g \<noteq> []"
  shows "poll_new_messages g (Inr msgs) =
    (Inr (if last_message_time g = 0 then [] else map (message_info_of gid) (new_foreign g msgs)),
     case new_foreign g msgs of [] \<Rightarrow> g
     | m # rest \<Rightarrow> g\<lparr>last_message_time := foldl max (rm_created_at m) (map rm_created_at rest)\<rparr>)"
proof (cases "new_foreign g msgs")
  case Nil
  then show ?thesis using assms
    by (simp add: poll_new_messages_def new_foreign_def)
next
  case (Cons m rest)
  then show ?thesis using assms
    by (simp add: poll_new_messages_def new_foreign_def message_info_of_def comp_def)
qed

lemma poll_invalid_state:
  assumes "bot_group_id g = None \<or> bot_group_id g = Some [] \<or> access_token g = []"
  shows "snd (poll_new_messages g r) = g"
  using assms by (auto simp: poll_new_messages_def split: option.splits)

lemma poll_invalid_error:
  assumes "bot_group_id g = None \<or> bot_group_id g = Some [] \<or> access_token g = []"
  shows "\<exists>e. fst (poll_new_messages g r) = Inl e"
  using assms by (auto simp: poll_new_messages_def split: option.splits)

lemma poll_failed_request_state: "snd (poll_new_messages g (Inl reason)) = g"
  by (auto simp: poll_new_messages_def split: option.splits)

lemma poll_failed_request_error: "\<exists>e. fst (poll_new_messages g (Inl reason)) = Inl e"
  by (auto simp: poll_new_messages_def split: option.splits)

lemma new_foreign_newer: "m \<in> set (new_foreign g msgs) \<Longrightarrow> last_message_time g < rm_created_at m"
  by (simp add: new_foreign_def)

lemma poll_cursor_valid:
  assumes "bot_group_id g = Some gid" and "gid \<noteq> []" and "access_token g \<noteq> []"
  shows "last_message_time g \<le> last_message_time (snd (poll_new_messages g (Inr msgs)))"
    and "m \<in> set (new_foreign g msgs) \<Longrightarrow>
           rm_created_at m \<le> last_message_time (snd (poll_new_messages g (Inr msgs)))"
proof -
  show "last_message_time g \<le> last_message_time (snd (poll_new_messages g (Inr msgs)))"
  proof (cases "new_foreign g msgs")
    case Nil
    then show ?thesis by (simp add: poll_valid [OF assms])
  next
    case (Cons a rest)
    then have "a \<in> set (new_foreign g msgs)" by simp
    then have "last_message_time g < rm_created_at a" by (rule new_foreign_newer)
    also have "rm_created_at a \<le> foldl max (rm_created_at a) (map rm_created_at rest)"
      by (rule foldl_max_init)
    finally show ?thesis using Cons by (simp add: poll_valid [OF assms])
  qed
next
  assume m: "m \<in> set (new_foreign g msgs)"
  show "rm_created_at m \<le> last_message_time (snd (poll_new_messages g (Inr msgs)))"
  proof (cases "new_foreign g msgs")
    case Nil
    with m show ?thesis by simp
  next
    case (Cons a rest)
    have "rm_created_at m \<le> foldl max (rm_created_at a) (map rm_created_at rest)"
    proof (cases "m = a")
      case True
      then show ?thesis by (simp add: foldl_max_init)
    next
      case False
      with m Cons have "rm_created_at m \<in> set (map rm_created_at rest)" by simp
      then show ?thesis by (rule foldl_max_ge)
    qed
    then show ?thesis using Cons by (simp add: poll_valid [OF assms])
  qed
qed

lemma poll_state_cases:
  "snd (poll_new_messages g r) = g
   \<or> (\<exists>gid msgs. r = Inr msgs \<and> bot_group_id g = Some gid \<and> gid \<noteq> [] \<and> access_token g \<noteq> []
        \<and> new_foreign g msgs \<noteq> [])"
proof (cases r)
  case (Inl reason)
  then show ?thesis by (simp add: poll_failed_request_state)
next
  case (Inr msgs)
  show ?thesis
  proof (cases "bot_group_id g = None \<or> bot_group_id g = Some [] \<or> access_token g = []")
    case True
    then show ?thesis by (simp add: poll_invalid_state)
  next
    case False
    then obtain gid where v: "bot_group_id g = Some gid" "gid \<noteq> []" "access_token g \<noteq> []"
      by auto
    show ?thesis
    proof (cases "new_foreign g msgs")
      case Nil
      then show ?thesis using Inr by (simp add: poll_valid [OF v])
    next
      case (Cons a rest)
      then show ?thesis using Inr v by simp
    qed
  qed
qed

lemma poll_cursor_mono: "last_message_time g \<le> last_message_time (snd (poll_new_messages g r))"
  using poll_state_cases [of g r] poll_cursor_valid(1) by fastforce

lemma poll_returns_newer:
  assumes "fst (poll_new_messages g r) = Inr infos" and "i \<in> set infos"
  shows "last_message_time g < mi_created_at i"
proof (cases r)
  case (Inl reason)
  with assms show ?thesis using poll_failed_request_error [of g reason] by auto
next
  case (Inr msgs)
  show ?thesis
  proof (cases "bot_group_id g = None \<or> bot_group_id g = Some [] \<or> access_token g = []")
    case True
    with assms show ?thesis using poll_invalid_error [of g r] by auto
  next
    case False
    then obtain gid where v: "bot_group_id g = Some gid" "gid \<noteq> []" "access_token g \<noteq> []"
      by auto
    from assms Inr have "i \<in> set (map (message_info_of gid) (new_foreign g msgs))"
      by (auto simp: poll_valid [OF v] split: if_splits)
    then obtain m where "m \<in> set (new_foreign g msgs)" and "i = message_info_of gid m" by auto
    then show ?thesis using new_foreign_newer by (simp add: message_info_of_def)
  qed
qed

lemma poll_many_returns_newer:
  assumes "res \<in> set (fst (poll_many g rs))" and "res = Inr infos" and "i \<in> set infos"
  shows "last_message_time g < mi_created_at i"
  using assms
proof (induction rs arbitrary: g)
  case Nil
  then show ?case by simp
next
  case (Cons r rs)
  obtain res1 g1 where p: "poll_new_messages g r = (res1, g1)" by (cases "poll_new_messages g r")
  obtain ress g2 where q: "poll_many g1 rs = (ress, g2)" by (cases "poll_many g1 rs")
  from Cons.prems(1) p q have "res = res1 \<or> res \<in> set (fst (poll_many g1 rs))" by auto
  then show ?case
  proof
    assume "res = res1"
    with p Cons.prems show ?thesis using poll_returns_newer [of g r infos i] by simp
  next
    assume "res \<in> set (fst (poll_many g1 rs))"
    then have "last_message_time g1 < mi_created_at i" using Cons.IH Cons.prems(2,3) by blast
    moreover have "last_message_time g \<le> last_message_time g1"
      using poll_cursor_mono [of g r] p by simp
    ultimately show ?thesis by simp
  qed
qed

section \<open>Cold start\<close>

lemma cycle_events_first_run:
  assumes "last_message_time (groupme c) = 0" and "bot_group_id (groupme c) = Some gid"
    and "gid \<noteq> []" and "access_token (groupme c) \<noteq> []" and "response env = Inr msgs"
  shows "fst (process_polling_cycle c env) =
     (case fst (should_send_random_message (manager c) (cycle_now env) (cycle_now_reset env)
                 (cycle_sample env)) of
        Inl e \<Rightarrow> [Cycle_error e]
      | Inr should_send \<Rightarrow> if should_send then [Spawn_random] else [])"
proof -
  obtain g' where p: "poll_new_messages (groupme c) (Inr msgs) = (Inr [], g')"
    using poll_valid [OF assms(2,3,4), of msgs] assms(1) by simp
  obtain r mm' where s: "should_send_random_message (manager c) (cycle_now env)
      (cycle_now_reset env) (cycle_sample env) = (r, mm')"
    by (cases "should_send_random_message (manager c) (cycle_now env)
      (cycle_now_reset env) (cycle_sample env)")
  show ?thesis
    by (cases r) (simp_all add: process_polling_cycle_def assms(5) p s)
qed

text \<open>
  C6. On the first poll after start (cursor 0, group and token set) the poll step returns
  the empty list whatever messages the platform sends. The events of that cycle are those
  of a cycle with an empty response, and no reply generation is spawned: what the cycle
  triggers does not depend on the response.
\<close>

theorem first_poll_returns_nothing:
  assumes "last_message_time (groupme c) = 0" and "bot_group_id (groupme c) = Some gid"
    and "gid \<noteq> []" and "access_token (groupme c) \<noteq> []"
  shows "fst (poll_new_messages (groupme c) (Inr msgs)) = Inr []
     \<and> fst (process_polling_cycle c (env\<lparr>response := Inr msgs\<rparr>))
         = fst (process_polling_cycle c (env\<lparr>response := Inr []\<rparr>))
     \<and> (\<forall>rid text likes uname.
          Spawn_reply rid text likes uname \<notin> set (fst (process_polling_cycle c (env\<lparr>response := Inr msgs\<rparr>))))"
proof -
  have a: "fst (poll_new_messages (groupme c) (Inr msgs)) = Inr []"
    using poll_valid [OF assms(2,3,4), of msgs] assms(1) by simp
  have e: "fst (process_polling_cycle c (env\<lparr>response := Inr ms\<rparr>)) =
     (case fst (should_send_random_message (manager c) (cycle_now env) (cycle_now_reset env)
                 (cycle_sample env)) of
        Inl e \<Rightarrow> [Cycle_error e]
      | Inr should_send \<Rightarrow> if should_send then [Spawn_random] else [])" for ms
    using cycle_events_first_run [OF assms, of "env\<lparr>response := Inr ms\<rparr>" ms] by simp
  have b: "fst (process_polling_cycle c (env\<lparr>response := Inr msgs\<rparr>))
         = fst (process_polling_cycle c (env\<lparr>response := Inr []\<rparr>))"
    by (simp only: e)
  have d: "\<forall>rid text likes uname.
          Spawn_reply rid text likes uname \<notin> set (fst (process_polling_cycle c (env\<lparr>response := Inr msgs\<rparr>)))"
    unfolding e by (auto split: sum.splits)
  from a b d show ?thesis by blast
qed

theorem first_poll_returns_nothing_witness:
  "fst (poll_new_messages example_groupme (Inr [foreign_message, own_message])) = Inr []
   \<and> fst (process_polling_cycle example_controller example_cycle_env) = []"
proof -
  have h: "last_message_time (groupme example_controller) = 0"
    "bot_group_id (groupme example_controller) = Some ''12345''"
    "''12345'' \<noteq> []" "access_token (groupme example_controller) \<noteq> []"
    by (simp_all add: example_controller_def example_groupme_def)
  have g: "groupme example_controller = example_groupme"
    by (simp add: example_controller_def)
  have env: "example_cycle_env\<lparr>response := Inr [foreign_message, own_message]\<rparr> = example_cycle_env"
    by (simp add: example_cycle_env_def)
  have empty: "fst (process_polling_cycle example_controller (example_cycle_env\<lparr>response := Inr []\<rparr>)) = []"
    by (simp add: process_polling_cycle_def poll_new_messages_def example_controller_def
        example_groupme_def example_cycle_env_def should_send_random_message_def
        default_manager_def default_probability)
  from first_poll_returns_nothing [OF h, of "[foreign_message, own_message]" example_cycle_env]
  show ?thesis by (simp add: g env empty)
qed

text \<open>
  C10. The cursor moves only in a poll that finds a new message of another user. So when
  the first poll finds none, the state is unchanged and the next poll is again a first
  run: it returns the empty list although the response holds a new foreign message
  \<open>m\<close>, and it moves the cursor up to or past \<open>m\<close>. From then on no poll, whatever
  the responses, returns \<open>m\<close>: the message never reaches the trigger evaluation.
\<close>

theorem first_run_repeats_and_drops:
  assumes "bot_group_id g = Some gid" and "gid \<noteq> []" and "access_token g \<noteq> []"
    and "last_message_time g = 0"
    and "new_foreign g msgs1 = []"
    and "m \<in> set (new_foreign g msgs2)"
  shows "(\<forall>g0 r. last_message_time (snd (poll_new_messages g0 r)) \<noteq> last_message_time g0
            \<longrightarrow> (\<exists>ms. r = Inr ms \<and> new_foreign g0 ms \<noteq> []))
     \<and> poll_new_messages g (Inr msgs1) = (Inr [], g)
     \<and> fst (poll_new_messages g (Inr msgs2)) = Inr []
     \<and> 0 < rm_created_at m
     \<and> rm_created_at m \<le> last_message_time (snd (poll_new_messages g (Inr msgs2)))
     \<and> (\<forall>rs res infos. res \<in> set (fst (poll_many (snd (poll_new_messages g (Inr msgs2))) rs))
            \<longrightarrow> res = Inr infos \<longrightarrow> message_info_of gid m \<notin> set infos)"
proof -
  note v = assms(1,2,3)
  have a: "\<forall>g0 r. last_message_time (snd (poll_new_messages g0 r)) \<noteq> last_message_time g0
            \<longrightarrow> (\<exists>ms. r = Inr ms \<and> new_foreign g0 ms \<noteq> [])"
  proof (intro allI impI)
    fix g0 r
    assume "last_message_time (snd (poll_new_messages g0 r)) \<noteq> last_message_time g0"
    then have "snd (poll_new_messages g0 r) \<noteq> g0" by auto
    with poll_state_cases [of g0 r] show "\<exists>ms. r = Inr ms \<and> new_foreign g0 ms \<noteq> []" by blast
  qed
  have b: "poll_new_messages g (Inr msgs1) = (Inr [], g)"
    by (simp add: poll_valid [OF v] assms(4,5))
  have c: "fst (poll_new_messages g (Inr msgs2)) = Inr []"
    by (simp add: poll_valid [OF v] assms(4))
  have d: "0 < rm_created_at m"
    using new_foreign_newer [OF assms(6)] assms(4) by simp
  have e: "rm_created_at m \<le> last_message_time (snd (poll_new_messages g (Inr msgs2)))"
    using poll_cursor_valid(2) [OF v assms(6)] .
  have f: "\<forall>rs res infos. res \<in> set (fst (poll_many (snd (poll_new_messages g (Inr msgs2))) rs))
            \<longrightarrow> res = Inr infos \<longrightarrow> message_info_of gid m \<notin> set infos"
  proof (intro allI impI notI)
    fix rs res infos
    assume "res \<in> set (fst (poll_many (snd (poll_new_messages g (Inr msgs2))) rs))"
      and "res = Inr infos" and "message_info_of gid m \<in> set infos"
    then have "last_message_time (snd (poll_new_messages g (Inr msgs2)))
        < mi_created_at (message_info_of gid m)"
      by (rule poll_many_returns_newer)
    with e show False by (simp add: message_info_of_def)
  qed
  from a b c d e f show ?thesis by blast
qed

theorem first_run_repeats_and_drops_witness:
  "poll_new_messages example_groupme (Inr [own_message]) = (Inr [], example_groupme)
   \<and> poll_new_messages example_groupme (Inr [foreign_message, own_message])
       = (Inr [], example_groupme\<lparr>last_message_time := 1700000100\<rparr>)
   \<and> fst (poll_many (example_groupme\<lparr>last_message_time := 1700000100\<rparr>)
            [Inr [foreign_message, own_message], Inr [foreign_message]])
       = [Inr [], Inr []]"
proof -
  have v: "bot_group_id example_groupme = Some ''12345''" "''12345'' \<noteq> []"
    "access_token example_groupme \<noteq> []" "last_message_time example_groupme = 0"
    by (simp_all add: example_groupme_def)
  have n1: "new_foreign example_groupme [own_message] = []"
    by (simp add: new_foreign_def example_groupme_def own_message_def)
  have n2: "foreign_message \<in> set (new_foreign example_groupme [foreign_message, own_message])"
    by (simp add: new_foreign_def example_groupme_def own_message_def foreign_message_def)
  note t = first_run_repeats_and_drops [OF v n1 n2]
  have a: "poll_new_messages example_groupme (Inr [own_message]) = (Inr [], example_groupme)"
    using t by blast
  have b: "poll_new_messages example_groupme (Inr [foreign_message, own_message])
       = (Inr [], example_groupme\<lparr>last_message_time := 1700000100\<rparr>)"
    by (simp add: poll_new_messages_def example_groupme_def own_message_def foreign_message_def
        message_info_of_def)
  have c: "fst (poll_many (example_groupme\<lparr>last_message_time := 1700000100\<rparr>)
            [Inr [foreign_message, own_message], Inr [foreign_message]])
       = [Inr [], Inr []]"
    by (simp add: poll_new_messages_def example_groupme_def own_message_def foreign_message_def
        message_info_of_def)
  from a b c show ?thesis by blast
qed

section \<open>The random trigger\<close>

lemma fl_round_24: "fl_round 24 = Fin 24"
proof -
  have b: "binade 2200 24 = 4" by (simp add: binade_numeral)
  have n: "round_even (24 / pow2 (4 - 52)) = 6755399441055744"
    by (simp add: pow2_def round_even_def)
  have "of_int (6755399441055744::int) * pow2 (4 - 52) < pow2 1024"
    by (simp add: pow2_def)
  from fl_round_cert [OF _ b _ n this] show ?thesis by (simp add: pow2_def)
qed

lemma fl_round_16: "fl_round 16 = Fin 16"
proof -
  have b: "binade 2200 16 = 4" by (simp add: binade_numeral)
  have n: "round_even (16 / pow2 (4 - 52)) = 4503599627370496"
    by (simp add: pow2_def round_even_def)
  have "of_int (4503599627370496::int) * pow2 (4 - 52) < pow2 1024"
    by (simp add: pow2_def)
  from fl_round_cert [OF _ b _ n this] show ?thesis by (simp add: pow2_def)
qed

lemma fl_round_two_thirds: "fl_round (2 / 3) = Fin (6004799503160661 / 9007199254740992)"
proof -
  have b: "binade 2200 (2 / 3) = - 1" by (simp add: binade_numeral)
  have n: "round_even (2 / 3 / pow2 (- 1 - 52)) = 6004799503160661"
    by (simp add: pow2_def round_even_def)
  have "of_int (6004799503160661::int) * pow2 (- 1 - 52) < pow2 1024"
    by (simp add: pow2_def)
  from fl_round_cert [OF _ b _ n this] show ?thesis by (simp add: pow2_def)
qed





text \<open>
  The rounding is that of the code: with 16 messages per day and an interval of 3600
  seconds the probability is the double below two thirds, and a sample equal to it does
  not trigger.
\<close>

lemma random_trigger_rounds:
  "probability_per_cycle
     (default_config(''random_messages_per_day'' \<mapsto> IntV 16, ''polling_interval_seconds'' \<mapsto> IntV 3600))
     = Inr (Fin (6004799503160661 / 9007199254740992))
   \<and> fst (should_send_random_message
       (default_manager\<lparr>config := default_config(''random_messages_per_day'' \<mapsto> IntV 16,
          ''polling_interval_seconds'' \<mapsto> IntV 3600)\<rparr>)
       1700000000000000 1700000000000001 (6004799503160661 / 9007199254740992)) = Inr False"
  by (simp add: should_send_random_message_def probability_per_cycle_def default_manager_def
      default_config_def get_default_def getitem_def fl_round_24 fl_round_16 fl_round_two_thirds)

section \<open>The reply trigger and its keyword\<close>













text \<open>With a rate of 0 the probability is exactly 1.0 for any number of likes, here 5.\<close>

lemma keyword_probability_at_rate_zero:
  "reply_probability (default_config(''reply_chance_per_like'' \<mapsto> FloatV 0)) ''hi Keller'' 5
     = Inr (NFloat (Fin 1))"
  by (simp add: reply_probability_def default_config_def getitem_def sublist_Cons_right
      py_min_def py_less_def fl_round_0 fl_round_1 fl_round_5)

lemma fl_round_3: "fl_round 3 = Fin 3"
proof -
  have b: "binade 2200 3 = 1" by (simp add: binade_numeral)
  have n: "round_even (3 / pow2 (1 - 52)) = 6755399441055744"
    by (simp add: pow2_def round_even_def)
  have "of_int (6755399441055744::int) * pow2 (1 - 52) < pow2 1024"
    by (simp add: pow2_def)
  from fl_round_cert [OF _ b _ n this] show ?thesis by (simp add: pow2_def)
qed

lemma fl_round_three_tenths_times_3:
  "fl_round (5404319552844595 / 18014398509481984 * 3)
     = Fin (2026619832316723 / 2251799813685248)"
proof -
  have b: "binade 2200 (5404319552844595 / 18014398509481984 * 3) = - 1"
    by (simp add: binade_numeral)
  have n: "round_even (5404319552844595 / 18014398509481984 * 3 / pow2 (- 1 - 52))
      = 8106479329266892"
    by (simp add: pow2_def round_even_def)
  have "of_int (8106479329266892::int) * pow2 (- 1 - 52) < pow2 1024"
    by (simp add: pow2_def)
  from fl_round_cert [OF _ b _ n this] show ?thesis by (simp add: pow2_def)
qed

text \<open>
  The product is rounded as the code rounds it: with the default rate and 3 likes the
  probability is the double \<open>0.8999999999999999\<close>, not nine tenths.
\<close>

lemma reply_probability_rounds:
  "reply_probability default_config ''hello'' 3
     = Inr (NFloat (Fin (2026619832316723 / 2251799813685248)))"
proof -
  have m: "py_mul (NFloat (Fin (5404319552844595 / 18014398509481984))) (NInt 3)
      = Inr (NFloat (Fin (2026619832316723 / 2251799813685248)))"
    by (simp only: py_mul.simps to_float.simps of_int_numeral fl_round_3 fval.case sum.case
        fmul.simps fl_round_three_tenths_times_3)
  show ?thesis
    by (simp add: reply_probability_def default_config_def getitem_def sublist_Cons_right
        py_min_def py_less_def m del: py_mul.simps)
qed

section \<open>Errors in a polling cycle\<close>


lemma should_send_config:
  "config (snd (should_send_random_message mm now now_reset sample)) = config mm"
  by (simp add: should_send_random_message_def Let_def reset_daily_counter_def split: sum.splits)

lemma cycle_running: "running (snd (process_polling_cycle c env)) = running c"
  by (auto simp: process_polling_cycle_def Let_def split: prod.splits sum.splits)

lemma cycle_config: "config (manager (snd (process_polling_cycle c env))) = config (manager c)"
proof -
  obtain r g' where p: "poll_new_messages (groupme c) (response env) = (r, g')"
    by (cases "poll_new_messages (groupme c) (response env)")
  obtain s mm' where q: "should_send_random_message (manager c) (cycle_now env)
      (cycle_now_reset env) (cycle_sample env) = (s, mm')"
    by (cases "should_send_random_message (manager c) (cycle_now env)
      (cycle_now_reset env) (cycle_sample env)")
  have "config mm' = config (manager c)"
    using should_send_config [of "manager c" "cycle_now env" "cycle_now_reset env" "cycle_sample env"] q
    by simp
  then show ?thesis
    by (cases r; cases s) (simp_all add: process_polling_cycle_def p q)
qed




lemma iteration_numeric:
  assumes "num (get_default (config (manager c)) ''polling_interval_seconds'' (IntV 120)) = Inr seconds"
    and "\<not> stop_during_sleep env"
  shows "polling_iteration c last_interval env =
           (fst (process_polling_cycle c env) @ [Slept seconds],
            snd (process_polling_cycle c env),
            (if (case last_interval of None \<Rightarrow> True
                 | Some l \<Rightarrow> \<not> py_eq l (get_default (config (manager c)) ''polling_interval_seconds'' (IntV 120)))
             then Some (get_default (config (manager c)) ''polling_interval_seconds'' (IntV 120))
             else last_interval),
            True)"
  using assms
  by (simp add: polling_iteration_def Let_def split: prod.splits)


lemma cycle_no_sleep: "Slept x \<notin> set (fst (process_polling_cycle c env))"
proof -
  obtain r g' where p: "poll_new_messages (groupme c) (response env) = (r, g')"
    by (cases "poll_new_messages (groupme c) (response env)")
  obtain s mm' where q: "should_send_random_message (manager c) (cycle_now env)
      (cycle_now_reset env) (cycle_sample env) = (s, mm')"
    by (cases "should_send_random_message (manager c) (cycle_now env)
      (cycle_now_reset env) (cycle_sample env)")
  show ?thesis
    by (cases r; cases s)
      (auto simp: process_polling_cycle_def p q process_incoming_message_def
         split: option.splits)
qed




lemma image_cycle_poll:
  "fst (poll_new_messages (groupme polled_controller) (response image_cycle_env))
     = Inr [message_info_of ''12345'' image_message, message_info_of ''12345'' foreign_message]"
  by (simp add: poll_new_messages_def polled_controller_def example_groupme_def
      image_cycle_env_def image_message_def foreign_message_def)



text \<open>
  The 60 second sleep belongs to the handler of the loop, which is entered only by an
  exception raised outside the cycle, such as a polling interval that is not a number.
  And a loop that is running, with a numeric interval and no stop request, performs
  every iteration it is given, whatever errors its cycles meet.
\<close>

lemma loop_error_sleeps_60:
  assumes "num (get_default (config (manager c)) ''polling_interval_seconds'' (IntV 120)) = Inl e"
    and "\<not> stop_during_sleep env"
  shows "polling_iteration c None env = ([Loop_error e, Slept 60], c, None, True)"
  using assms by (simp add: polling_iteration_def Let_def recover_def)

lemma polling_loop_keeps_running:
  assumes "running c"
    and "num (get_default (config (manager c)) ''polling_interval_seconds'' (IntV 120)) = Inr seconds"
    and "\<forall>env \<in> set envs. \<not> stop_during_sleep env"
  shows "length (filter (\<lambda>ev. ev = Slept seconds) (fst (polling_loop c last_interval envs)))
           = length envs
         \<and> running (snd (polling_loop c last_interval envs))"
  using assms
proof (induction envs arbitrary: c last_interval)
  case Nil
  then show ?case by simp
next
  case (Cons env envs)
  let ?c' = "snd (process_polling_cycle c env)"
  have ns: "\<not> stop_during_sleep env" using Cons.prems(3) by simp
  note it = iteration_numeric [OF Cons.prems(2) ns, of last_interval]
  have r': "running ?c'" using Cons.prems(1) by (simp add: cycle_running)
  have n': "num (get_default (config (manager ?c')) ''polling_interval_seconds'' (IntV 120))
      = Inr seconds"
    using Cons.prems(2) by (simp add: cycle_config)
  have rest: "\<forall>env \<in> set envs. \<not> stop_during_sleep env" using Cons.prems(3) by simp
  obtain l' where l': "polling_iteration c last_interval env
      = (fst (process_polling_cycle c env) @ [Slept seconds], ?c', l', True)"
    using it by blast
  note ih = Cons.IH [OF r' n' rest, of l']
  have z: "filter (\<lambda>ev. ev = Slept seconds) (fst (process_polling_cycle c env)) = []"
    using cycle_no_sleep [of seconds c env] by (auto simp: filter_empty_conv)
  obtain evs2 c2 where q: "polling_loop ?c' l' envs = (evs2, c2)"
    by (cases "polling_loop ?c' l' envs")
  from ih q have "length (filter (\<lambda>ev. ev = Slept seconds) evs2) = length envs" "running c2"
    by simp_all
  then show ?case using Cons.prems(1) by (simp add: l' q z)
qed

end
